theory Spec2Isabelle
  imports Main "HOL-Library.Word"
begin

section \<open>Values, bytes and ABI encoding\<close>

text \<open>
  Solidity's \<open>uint256\<close> and \<open>bytes32\<close> are 256-bit words, an \<open>address\<close> is a 160-bit
  word, \<open>bytes\<close> is a list of 8-bit words. Comparison on words is unsigned, as
  Solidity's is on \<open>uint256\<close>.
\<close>

type_synonym byte = "8 word"
type_synonym bytes = "byte list"
type_synonym bytes32 = "256 word"
type_synonym uint256 = "256 word"
type_synonym address = "160 word"

definition string_bytes :: "string \<Rightarrow> bytes" where
  "string_bytes s = map of_char s"

text \<open>Big-endian bytes of a number, \<open>n\<close> bytes wide (the high bytes are cut off).\<close>

fun be_bytes :: "nat \<Rightarrow> nat \<Rightarrow> bytes" where
  "be_bytes 0 k = []"
| "be_bytes (Suc n) k = be_bytes n (k div 256) @ [of_nat (k mod 256)]"

fun be_nat :: "bytes \<Rightarrow> nat \<Rightarrow> nat" where
  "be_nat [] acc = acc"
| "be_nat (b # bs) acc = be_nat bs (acc * 256 + unat b)"

definition bytes32_of :: "256 word \<Rightarrow> bytes" where
  "bytes32_of w = be_bytes 32 (unat w)"

definition abi_address :: "address \<Rightarrow> uint256" where
  "abi_address a = ucast a"

text \<open>
  \<open>abi.encode\<close> of static 32-byte values: each one is a 32-byte big-endian word, in
  the order given.
\<close>

definition abi_encode :: "256 word list \<Rightarrow> bytes" where
  "abi_encode ws = concat (map bytes32_of ws)"

section \<open>External collaborators\<close>

text \<open>
  The contract imports OpenZeppelin's \<open>ECDSA\<close> and \<open>EIP712\<close> and calls an ERC-20 token;
  none of them is part of the repository. The hash function and the signature
  recovery are parameters of the model; \<open>ECDSA.recover\<close> either returns the signer or
  reverts with one of the library's errors.
\<close>

datatype RecoverError = InvalidSignature | InvalidSignatureLength | InvalidSignatureS

datatype 'tok call_result = Returned bool 'tok | CallReverted

record 'tok collaborators =
  keccak256 :: "bytes \<Rightarrow> bytes32"
  ECDSA_recover :: "bytes32 \<Rightarrow> bytes \<Rightarrow> RecoverError + address"
  token_transfer :: "'tok \<Rightarrow> address \<Rightarrow> address \<Rightarrow> uint256 \<Rightarrow> 'tok call_result"

text \<open>
  \<open>token_transfer tok sender recipient amount\<close> is \<open>token.transfer(recipient, amount)\<close>
  called by \<open>sender\<close> on the token whose storage is \<open>tok\<close>: it returns a flag and the
  token's new storage, or reverts. The token does not call back into the vault.
\<close>

section \<open>EIP-712 typed data hashing (the contract's side)\<close>

text \<open>
  OpenZeppelin's \<open>EIP712\<close> base contract, as the standard defines it: the domain
  separator binds name, version, chain id and the verifying contract; the digest is
  the hash of \<open>0x19 0x01\<close>, the domain separator and the struct hash.
\<close>

definition EIP712Domain_TYPE :: string where
  "EIP712Domain_TYPE =
     ''EIP712Domain(string name,string version,uint256 chainId,address verifyingContract)''"

record domain_descriptor =
  name :: string
  version :: string
  chainId :: uint256
  verifyingContract :: address

definition buildDomainSeparator :: "(bytes \<Rightarrow> bytes32) \<Rightarrow> domain_descriptor \<Rightarrow> bytes32" where
  "buildDomainSeparator h D =
     h (abi_encode [h (string_bytes EIP712Domain_TYPE),
                    h (string_bytes (name D)),
                    h (string_bytes (version D)),
                    chainId D,
                    abi_address (verifyingContract D)])"

definition toTypedDataHash :: "(bytes \<Rightarrow> bytes32) \<Rightarrow> bytes32 \<Rightarrow> bytes32 \<Rightarrow> bytes32" where
  "toTypedDataHash h domainSeparator structHash =
     h ([0x19, 0x01] @ bytes32_of domainSeparator @ bytes32_of structHash)"

definition hashTypedDataV4 :: "(bytes \<Rightarrow> bytes32) \<Rightarrow> domain_descriptor \<Rightarrow> bytes32 \<Rightarrow> bytes32" where
  "hashTypedDataV4 h D structHash = toTypedDataHash h (buildDomainSeparator h D) structHash"

section \<open>The TokenVault contract\<close>

definition SIGNING_DOMAIN :: string where
  "SIGNING_DOMAIN = ''WithdrawAuthorization''"

definition SIGNATURE_VERSION :: string where
  "SIGNATURE_VERSION = ''1''"

definition WITHDRAW_TYPE :: string where
  "WITHDRAW_TYPE = ''Withdraw(address recipient,uint256 amount,uint256 nonce,uint256 deadline)''"

definition WITHDRAW_TYPEHASH :: "(bytes \<Rightarrow> bytes32) \<Rightarrow> bytes32" where
  "WITHDRAW_TYPEHASH h = h (string_bytes WITHDRAW_TYPE)"

datatype event = Withdraw address uint256 uint256

datatype error =
    Signature_expired
  | ECDSA_error RecoverError
  | Invalid_signer
  | Panic_overflow
  | Transfer_failed
  | Token_reverted
  | Not_authorized
  | Invalid_new_owner

record 'tok chain_state =
  nonces :: "address \<Rightarrow> uint256"
  owner :: address
  token_storage :: "'tok"
  logs :: "event list"

record call_context =
  block_timestamp :: uint256
  block_chainid :: uint256
  address_this :: address

text \<open>The domain the vault verifies under: its two constants, the chain and itself.\<close>

definition vault_domain :: "call_context \<Rightarrow> domain_descriptor" where
  "vault_domain ctx =
     \<lparr>name = SIGNING_DOMAIN, version = SIGNATURE_VERSION,
      chainId = block_chainid ctx, verifyingContract = address_this ctx\<rparr>"

definition withdraw_structHash ::
  "(bytes \<Rightarrow> bytes32) \<Rightarrow> address \<Rightarrow> uint256 \<Rightarrow> uint256 \<Rightarrow> uint256 \<Rightarrow> bytes32" where
  "withdraw_structHash h recipient amount nonce deadline =
     h (abi_encode [WITHDRAW_TYPEHASH h, abi_address recipient, amount, nonce, deadline])"

definition withdraw_digest ::
  "(bytes \<Rightarrow> bytes32) \<Rightarrow> domain_descriptor \<Rightarrow> address \<Rightarrow> uint256 \<Rightarrow> uint256 \<Rightarrow> uint256 \<Rightarrow> bytes32" where
  "withdraw_digest h D recipient amount nonce deadline =
     hashTypedDataV4 h D (withdraw_structHash h recipient amount nonce deadline)"

text \<open>
  The body of \<open>withdrawTo\<close>, statement by statement. It returns the error of the
  failing \<open>require\<close> (or \<open>None\<close>) together with the storage as it is at that point:
  after \<open>nonces[recipient] += 1\<close> the counter is already written. Solidity 0.8 checks
  the addition and panics on overflow.
\<close>

definition withdrawTo_body ::
  "'tok collaborators \<Rightarrow> call_context \<Rightarrow> address \<Rightarrow> uint256 \<Rightarrow> uint256 \<Rightarrow> bytes \<Rightarrow>
   'tok chain_state \<Rightarrow> error option \<times> 'tok chain_state" where
  "withdrawTo_body env ctx recipient amount deadline signature s =
     (if \<not> block_timestamp ctx \<le> deadline then (Some Signature_expired, s)
      else
        let nonce = nonces s recipient;
            digest = withdraw_digest (keccak256 env) (vault_domain ctx)
                       recipient amount nonce deadline
        in case ECDSA_recover env digest signature of
             Inl e \<Rightarrow> (Some (ECDSA_error e), s)
           | Inr signer \<Rightarrow>
               if signer \<noteq> recipient then (Some Invalid_signer, s)
               else if nonce = - 1 then (Some Panic_overflow, s)
               else
                 let s1 = s\<lparr>nonces := (nonces s)(recipient := nonce + 1)\<rparr>
                 in (case token_transfer env (token_storage s1) (address_this ctx)
                            recipient amount of
                       CallReverted \<Rightarrow> (Some Token_reverted, s1)
                     | Returned ok tok' \<Rightarrow>
                         let s2 = s1\<lparr>token_storage := tok'\<rparr>
                         in if \<not> ok then (Some Transfer_failed, s2)
                            else (None, s2\<lparr>logs := logs s2 @ [Withdraw recipient amount nonce]\<rparr>)))"

text \<open>
  An external call is a transaction: when the body fails, every write it made is
  rolled back and the caller sees the error; otherwise its writes are kept.
\<close>

datatype outcome = Success | Reverted error

definition external_call ::
  "('s \<Rightarrow> error option \<times> 's) \<Rightarrow> 's \<Rightarrow> outcome \<times> 's" where
  "external_call body s =
     (case body s of (None, s') \<Rightarrow> (Success, s') | (Some e, _) \<Rightarrow> (Reverted e, s))"

definition withdrawTo ::
  "'tok collaborators \<Rightarrow> call_context \<Rightarrow> address \<Rightarrow> uint256 \<Rightarrow> uint256 \<Rightarrow> bytes \<Rightarrow>
   'tok chain_state \<Rightarrow> outcome \<times> 'tok chain_state" where
  "withdrawTo env ctx recipient amount deadline signature =
     external_call (withdrawTo_body env ctx recipient amount deadline signature)"

text \<open>
  The digest \<open>withdrawTo\<close> reconstructs in state \<open>s\<close>, and the state a successful call
  leaves: the counter one higher, the token's storage as the transfer left it, one
  \<open>Withdraw\<close> event appended.
\<close>

definition vault_digest ::
  "'tok collaborators \<Rightarrow> call_context \<Rightarrow> 'tok chain_state \<Rightarrow> address \<Rightarrow> uint256 \<Rightarrow> uint256 \<Rightarrow>
   bytes32" where
  "vault_digest env ctx s recipient amount deadline =
     withdraw_digest (keccak256 env) (vault_domain ctx) recipient amount
       (nonces s recipient) deadline"

definition withdraw_state ::
  "'tok chain_state \<Rightarrow> address \<Rightarrow> uint256 \<Rightarrow> 'tok \<Rightarrow> 'tok chain_state" where
  "withdraw_state s recipient amount tok' =
     s\<lparr>nonces := (nonces s)(recipient := nonces s recipient + 1),
       token_storage := tok',
       logs := logs s @ [Withdraw recipient amount (nonces s recipient)]\<rparr>"

text \<open>
  The two functions of the owner. \<open>transferOwnership\<close> and \<open>transferToken\<close> carry the
  \<open>onlyOwner\<close> modifier; neither touches the counters.
\<close>

definition transferOwnership_body ::
  "address \<Rightarrow> address \<Rightarrow> 'tok chain_state \<Rightarrow> error option \<times> 'tok chain_state" where
  "transferOwnership_body msg_sender newOwner s =
     (if msg_sender \<noteq> owner s then (Some Not_authorized, s)
      else if newOwner = 0 then (Some Invalid_new_owner, s)
      else (None, s\<lparr>owner := newOwner\<rparr>))"

definition transferOwnership ::
  "address \<Rightarrow> address \<Rightarrow> 'tok chain_state \<Rightarrow> outcome \<times> 'tok chain_state" where
  "transferOwnership msg_sender newOwner = external_call (transferOwnership_body msg_sender newOwner)"

definition transferToken_body ::
  "'tok collaborators \<Rightarrow> call_context \<Rightarrow> address \<Rightarrow> address \<Rightarrow> uint256 \<Rightarrow>
   'tok chain_state \<Rightarrow> error option \<times> 'tok chain_state" where
  "transferToken_body env ctx msg_sender recipient amount s =
     (if msg_sender \<noteq> owner s then (Some Not_authorized, s)
      else (case token_transfer env (token_storage s) (address_this ctx) recipient amount of
              CallReverted \<Rightarrow> (Some Token_reverted, s)
            | Returned ok tok' \<Rightarrow>
                let s1 = s\<lparr>token_storage := tok'\<rparr>
                in if \<not> ok then (Some Transfer_failed, s1) else (None, s1)))"

definition transferToken ::
  "'tok collaborators \<Rightarrow> call_context \<Rightarrow> address \<Rightarrow> address \<Rightarrow> uint256 \<Rightarrow>
   'tok chain_state \<Rightarrow> outcome \<times> 'tok chain_state" where
  "transferToken env ctx msg_sender recipient amount =
     external_call (transferToken_body env ctx msg_sender recipient amount)"

text \<open>
  What can happen to the vault between two calls: anybody calls \<open>withdrawTo\<close>,
  \<open>transferOwnership\<close> or \<open>transferToken\<close> with any arguments at any time (the calls
  that revert included), or the token's storage changes through calls made to the
  token elsewhere. \<open>vault_steps\<close> is any number of such steps.
\<close>

inductive vault_step ::
  "'tok collaborators \<Rightarrow> 'tok chain_state \<Rightarrow> 'tok chain_state \<Rightarrow> bool"
  for env :: "'tok collaborators" where
  call_withdrawTo:
    "vault_step env s (snd (withdrawTo env ctx recipient amount deadline signature s))"
| call_transferOwnership:
    "vault_step env s (snd (transferOwnership msg_sender newOwner s))"
| call_transferToken:
    "vault_step env s (snd (transferToken env ctx msg_sender recipient amount s))"
| token_activity:
    "vault_step env s (s\<lparr>token_storage := tok'\<rparr>)"

definition vault_steps ::
  "'tok collaborators \<Rightarrow> 'tok chain_state \<Rightarrow> 'tok chain_state \<Rightarrow> bool" where
  "vault_steps env = rtranclp (vault_step env)"

text \<open>
  What each hash is taken of. The hash function is a parameter, so that two digests
  differ is provable only where it does not collide on the two byte strings hashed;
  likewise a signature verifies for one digest only where recovery does not give the
  same signer for two digests.
\<close>

definition struct_preimage ::
  "(bytes \<Rightarrow> bytes32) \<Rightarrow> address \<Rightarrow> uint256 \<Rightarrow> uint256 \<Rightarrow> uint256 \<Rightarrow> bytes" where
  "struct_preimage h recipient amount nonce deadline =
     abi_encode [WITHDRAW_TYPEHASH h, abi_address recipient, amount, nonce, deadline]"

definition domain_preimage :: "(bytes \<Rightarrow> bytes32) \<Rightarrow> domain_descriptor \<Rightarrow> bytes" where
  "domain_preimage h D =
     abi_encode [h (string_bytes EIP712Domain_TYPE), h (string_bytes (name D)),
                 h (string_bytes (version D)), chainId D, abi_address (verifyingContract D)]"

definition typed_data_preimage ::
  "(bytes \<Rightarrow> bytes32) \<Rightarrow> domain_descriptor \<Rightarrow> bytes32 \<Rightarrow> bytes" where
  "typed_data_preimage h D structHash =
     [0x19, 0x01] @ bytes32_of (buildDomainSeparator h D) @ bytes32_of structHash"

definition no_collision :: "(bytes \<Rightarrow> bytes32) \<Rightarrow> bytes \<Rightarrow> bytes \<Rightarrow> bool" where
  "no_collision h x y \<longleftrightarrow> (h x = h y \<longrightarrow> x = y)"

definition binds_one_digest ::
  "(bytes32 \<Rightarrow> bytes \<Rightarrow> RecoverError + address) \<Rightarrow> bytes \<Rightarrow> address \<Rightarrow> bytes32 \<Rightarrow> bytes32 \<Rightarrow> bool"
  where
  "binds_one_digest recover signature a d d' \<longleftrightarrow>
     (recover d signature = Inr a \<and> recover d' signature = Inr a \<longrightarrow> d = d')"

text \<open>
  The same of a signature scheme such as ECDSA, in the form a replay needs: a
  signature that recovers \<open>a\<close> over one digest recovers, over any other digest, an
  address that is not \<open>a\<close>.
\<close>

definition recovers_another_signer ::
  "(bytes32 \<Rightarrow> bytes \<Rightarrow> RecoverError + address) \<Rightarrow> bytes \<Rightarrow> address \<Rightarrow> bytes32 \<Rightarrow> bytes32 \<Rightarrow> bool"
  where
  "recovers_another_signer recover signature a d d' \<longleftrightarrow>
     (recover d signature = Inr a \<and> d \<noteq> d' \<longrightarrow>
        (case recover d' signature of Inl e \<Rightarrow> False | Inr b \<Rightarrow> b \<noteq> a))"

section \<open>The backend (scripts/tokenVault-backend.js)\<close>

text \<open>
  \<open>DOMAIN\<close> and \<open>TYPES\<close> as the script declares them. The script's \<open>chainId\<close> and
  \<open>verifyingContract\<close> are placeholders to be replaced at deployment, so they are
  arguments here.
\<close>

datatype typed_field = Field (field_name: string) (field_type: string)

definition DOMAIN :: "uint256 \<Rightarrow> address \<Rightarrow> domain_descriptor" where
  "DOMAIN configured_chainId configured_contract =
     \<lparr>name = ''WithdrawAuthorization'', version = ''1'',
      chainId = configured_chainId, verifyingContract = configured_contract\<rparr>"

definition TYPES :: "(string \<times> typed_field list) list" where
  "TYPES =
     [(''Withdraw'',
       [Field ''recipient'' ''address'',
        Field ''amount'' ''uint256'',
        Field ''nonce'' ''uint256'',
        Field ''deadline'' ''uint256''])]"

subsection \<open>JavaScript numbers\<close>

text \<open>
  A JavaScript number is a double. The numbers this script computes with are integers
  or an infinity: a double holds an integer exactly up to \<open>2^53\<close> in magnitude, and
  beyond that rounds it to 53 significant bits, ties to the even neighbour, or to an
  infinity from \<open>2^1024 - 2^970\<close> on. \<open>double_round x\<close> is the double nearest to the
  integer \<open>x\<close>; \<open>js_of_int\<close> is how an integer written in a request or got from an
  exact operation becomes a number. Sum and product of two doubles are the exact
  result, rounded.
\<close>

datatype js_number = Finite int | PosInfinity | NegInfinity







text \<open>
  The \<open>data\<close> object: \<open>recipient\<close> and \<open>amount\<close> as passed in (an address and a decimal
  string), \<open>nonce\<close> the JavaScript number \<open>getNonce\<close> returns (an integer of at most
  \<open>2^53 - 1\<close>), \<open>deadline\<close> the JavaScript number computed.
\<close>

record withdrawal_data =
  data_recipient :: address
  data_amount :: uint256
  data_nonce :: int
  data_deadline :: js_number

subsection \<open>The typed-data encoder of ethers\<close>

text \<open>
  \<open>ethers.utils.verifyTypedData\<close> and the signer's \<open>_signTypedData\<close> hash their
  arguments with the library's \<open>TypedDataEncoder\<close>, which follows EIP-712 for any
  table of types: the type string is built from the field list and each value is
  encoded by its declared type. A \<open>uint256\<close> goes through \<open>BigNumber.from\<close>: a
  JavaScript number is refused from \<open>2^53 - 1\<close> on (and when it is negative or an
  infinity), a decimal string or big number when it is outside \<open>uint256\<close>.
\<close>

datatype typed_value = AddressV address | NumberV js_number | BigV int | StringV string

fun join_comma :: "string list \<Rightarrow> string" where
  "join_comma [] = []"
| "join_comma [x] = x"
| "join_comma (x # y # ys) = x @ '','' @ join_comma (y # ys)"

definition encodeType :: "string \<Rightarrow> typed_field list \<Rightarrow> string" where
  "encodeType primary flds =
     primary @ ''('' @ join_comma (map (\<lambda>f. field_type f @ '' '' @ field_name f) flds) @ '')''"

definition encodeValue :: "(bytes \<Rightarrow> bytes32) \<Rightarrow> string \<Rightarrow> typed_value \<Rightarrow> bytes32 option" where
  "encodeValue h ty v =
     (case v of
        AddressV a \<Rightarrow> if ty = ''address'' then Some (abi_address a) else None
      | NumberV (Finite n) \<Rightarrow>
          if ty = ''uint256'' \<and> 0 \<le> n \<and> n < 9007199254740991 then Some (word_of_int n)
          else None
      | NumberV _ \<Rightarrow> None
      | BigV n \<Rightarrow>
          if ty = ''uint256'' \<and> 0 \<le> n \<and> n < 2 ^ 256 then Some (word_of_int n) else None
      | StringV str \<Rightarrow> if ty = ''string'' then Some (h (string_bytes str)) else None)"

definition hashStruct ::
  "(bytes \<Rightarrow> bytes32) \<Rightarrow> string \<Rightarrow> typed_field list \<Rightarrow> (string \<times> typed_value) list \<Rightarrow>
   bytes32 option" where
  "hashStruct h primary flds obj =
     (case those (map (\<lambda>f. Option.bind (map_of obj (field_name f)) (encodeValue h (field_type f)))
                    flds) of
        None \<Rightarrow> None
      | Some ws \<Rightarrow> Some (h (abi_encode (h (string_bytes (encodeType primary flds)) # ws))))"

definition domain_fields :: "typed_field list" where
  "domain_fields =
     [Field ''name'' ''string'', Field ''version'' ''string'',
      Field ''chainId'' ''uint256'', Field ''verifyingContract'' ''address'']"

definition domain_object :: "domain_descriptor \<Rightarrow> (string \<times> typed_value) list" where
  "domain_object D =
     [(''name'', StringV (name D)), (''version'', StringV (version D)),
      (''chainId'', NumberV (Finite (uint (chainId D)))),
      (''verifyingContract'', AddressV (verifyingContract D))]"

definition data_object :: "withdrawal_data \<Rightarrow> (string \<times> typed_value) list" where
  "data_object d =
     [(''recipient'', AddressV (data_recipient d)), (''amount'', BigV (uint (data_amount d))),
      (''nonce'', NumberV (Finite (data_nonce d))), (''deadline'', NumberV (data_deadline d))]"

definition hashDomain :: "(bytes \<Rightarrow> bytes32) \<Rightarrow> domain_descriptor \<Rightarrow> bytes32 option" where
  "hashDomain h D = hashStruct h ''EIP712Domain'' domain_fields (domain_object D)"

definition TypedDataEncoder_hash ::
  "(bytes \<Rightarrow> bytes32) \<Rightarrow> domain_descriptor \<Rightarrow> (string \<times> typed_field list) list \<Rightarrow>
   withdrawal_data \<Rightarrow> bytes32 option" where
  "TypedDataEncoder_hash h D types d =
     (case types of
        [(primary, flds)] \<Rightarrow>
          (case (hashDomain h D, hashStruct h primary flds (data_object d)) of
             (Some domainHash, Some structHash) \<Rightarrow>
               Some (h ([0x19, 0x01] @ bytes32_of domainHash @ bytes32_of structHash))
           | _ \<Rightarrow> None)
      | _ \<Rightarrow> None)"

subsection \<open>TokenVaultBackend\<close>

datatype backend_error = NumericFault_overflow

text \<open>
  \<open>getNonce\<close> calls the contract's \<open>nonces\<close> getter and converts the result with
  \<open>toNumber()\<close>, which throws above \<open>2^53 - 1\<close>. The class keeps no nonce of its own:
  the chain state it reads is the one at the time of the call.
\<close>

definition getNonce :: "'tok chain_state \<Rightarrow> address \<Rightarrow> backend_error + int" where
  "getNonce chain userAddress =
     (let nonce = nonces chain userAddress
      in if uint nonce \<le> 9007199254740991 then Inr (uint nonce)
         else Inl NumericFault_overflow)"


text \<open>
  What the script leaves to deployment or to the ethers library: the two placeholders
  of \<open>DOMAIN\<close>, \<open>ethers.utils.formatEther\<close> and the text of an address.
\<close>

record backend_config =
  configured_chainId :: uint256
  configured_contract :: address
  formatEther :: "uint256 \<Rightarrow> string"
  address_text :: "address \<Rightarrow> string"


section \<open>A small executable instance of the collaborators\<close>

text \<open>
  To run the model on concrete inputs: a hash that cuts the bytes into 32-byte words
  from the end and adds them up; a signature scheme in which a signature carries the
  digest and the signer, and recovery shifts the signer by the difference between the
  digest given and the digest signed, so that a signature checked against another
  digest recovers another address; a token that keeps only the vault's balance and
  returns \<open>false\<close> when it is too low.
\<close>

fun demo_keccak256 :: "bytes \<Rightarrow> bytes32" where
  "demo_keccak256 bs =
     (if length bs \<le> 32 then of_nat (be_nat bs 0)
      else demo_keccak256 (take (length bs - 32) bs)
             + of_nat (be_nat (drop (length bs - 32) bs) 0))"

declare demo_keccak256.simps [simp del]

definition demo_sign :: "address \<Rightarrow> bytes32 \<Rightarrow> bytes" where
  "demo_sign a digest = bytes32_of digest @ bytes32_of (ucast a) @ [27]"

definition demo_recover :: "bytes32 \<Rightarrow> bytes \<Rightarrow> RecoverError + address" where
  "demo_recover digest signature =
     (if length signature \<noteq> 65 then Inl InvalidSignatureLength
      else
        let r = (of_nat (be_nat (take 32 signature) 0) :: 256 word);
            s = (of_nat (be_nat (take 32 (drop 32 signature)) 0) :: 256 word);
            signer = (ucast (s + (digest - r)) :: address)
        in if signer = 0 then Inl InvalidSignature else Inr signer)"

definition demo_transfer :: "uint256 \<Rightarrow> address \<Rightarrow> address \<Rightarrow> uint256 \<Rightarrow> uint256 call_result" where
  "demo_transfer bal sender recipient amount =
     (if bal < amount then Returned False bal else Returned True (bal - amount))"

definition demo_env :: "uint256 collaborators" where
  "demo_env = \<lparr>keccak256 = demo_keccak256, ECDSA_recover = demo_recover,
               token_transfer = demo_transfer\<rparr>"

text \<open>The signature of \<open>signer\<close> over a withdrawal message, under the backend's domain.\<close>

definition demo_signature ::
  "address \<Rightarrow> address \<Rightarrow> uint256 \<Rightarrow> uint256 \<Rightarrow> uint256 \<Rightarrow> bytes" where
  "demo_signature signer recipient amount nonce deadline =
     demo_sign signer
       (withdraw_digest demo_keccak256 (DOMAIN 1 0xABCD) recipient amount nonce deadline)"

definition demo_ctx :: "uint256 \<Rightarrow> call_context" where
  "demo_ctx now = \<lparr>block_timestamp = now, block_chainid = 1, address_this = 0xABCD\<rparr>"

definition demo_state :: "uint256 \<Rightarrow> uint256 chain_state" where
  "demo_state bal = \<lparr>nonces = (\<lambda>_. 0), owner = 0xA11CE, token_storage = bal, logs = []\<rparr>"

text \<open>
  The state after \<open>0x1234\<close> has withdrawn 100 from a vault of 5000, and the state
  after \<open>0x5678\<close> has then withdrawn 200.
\<close>

definition demo_state1 :: "uint256 chain_state" where
  "demo_state1 = withdraw_state (demo_state 5000) 0x1234 100 4900"

definition demo_state2 :: "uint256 chain_state" where
  "demo_state2 = withdraw_state demo_state1 0x5678 200 4700"


section \<open>Properties of the encoding\<close>

lemma length_be_bytes: "length (be_bytes n k) = n"
  by (induction n arbitrary: k) simp_all

lemma be_nat_append: "be_nat (xs @ ys) acc = be_nat ys (be_nat xs acc)"
  by (induction xs arbitrary: acc) simp_all

lemma unat_byte_of_nat: "unat (of_nat k :: byte) = k mod 256"
  by (simp add: unat_of_nat)

lemma be_nat_be_bytes: "be_nat (be_bytes n k) acc = acc * 256 ^ n + k mod 256 ^ n"
proof (induction n arbitrary: k acc)
  case 0
  show ?case by simp
next
  case (Suc n)
  have split: "k mod (256 * 256 ^ n) = 256 * (k div 256 mod 256 ^ n) + k mod 256"
    by (rule mod_mult2_eq)
  have "be_nat (be_bytes (Suc n) k) acc
          = (acc * 256 ^ n + k div 256 mod 256 ^ n) * 256 + k mod 256"
    by (simp add: be_nat_append Suc.IH unat_byte_of_nat)
  also have "\<dots> = acc * 256 ^ Suc n + k mod 256 ^ Suc n"
    using split by (simp add: algebra_simps)
  finally show ?case .
qed

lemma be_nat_bytes32_of: "be_nat (bytes32_of w) 0 = unat w"
proof -
  have "unat w < 2 ^ 256"
    using unsigned_less [of w] by simp
  also have "(2::nat) ^ 256 = 256 ^ 32"
    by simp
  finally show ?thesis
    by (simp add: bytes32_of_def be_nat_be_bytes)
qed

lemma bytes32_of_inject: "bytes32_of a = bytes32_of b \<longleftrightarrow> a = b"
proof
  assume "bytes32_of a = bytes32_of b"
  then have "be_nat (bytes32_of a) 0 = be_nat (bytes32_of b) 0"
    by simp
  then show "a = b"
    by (simp add: be_nat_bytes32_of word_unat_eq_iff)
qed simp

lemma length_bytes32_of: "length (bytes32_of w) = 32"
  by (simp add: bytes32_of_def length_be_bytes)

lemma abi_encode_inject:
  "length ws = length vs \<Longrightarrow> abi_encode ws = abi_encode vs \<longleftrightarrow> ws = vs"
proof (induction ws vs rule: list_induct2)
  case Nil
  show ?case by simp
next
  case (Cons w ws v vs)
  have "bytes32_of w @ abi_encode ws = bytes32_of v @ abi_encode vs
          \<longleftrightarrow> bytes32_of w = bytes32_of v \<and> abi_encode ws = abi_encode vs"
    by (rule append_eq_append_conv) (simp add: length_bytes32_of)
  with Cons.IH show ?case
    by (simp add: abi_encode_def bytes32_of_inject)
qed

lemma abi_address_inject: "abi_address a = abi_address b \<longleftrightarrow> a = b"
proof
  assume "abi_address a = abi_address b"
  then have "(ucast (ucast a :: 256 word) :: 160 word) = ucast (ucast b :: 256 word)"
    by (simp add: abi_address_def)
  then show "a = b"
    by (simp add: ucast_up_ucast_id is_up)
qed simp

section \<open>The paths through withdrawTo\<close>

lemma withdrawTo_expired:
  "deadline < block_timestamp ctx \<Longrightarrow>
   withdrawTo env ctx recipient amount deadline signature s = (Reverted Signature_expired, s)"
  by (simp add: withdrawTo_def external_call_def withdrawTo_body_def not_le)


lemma withdrawTo_wrong_signer:
  "block_timestamp ctx \<le> deadline \<Longrightarrow>
   ECDSA_recover env (vault_digest env ctx s recipient amount deadline) signature = Inr signer \<Longrightarrow>
   signer \<noteq> recipient \<Longrightarrow>
   withdrawTo env ctx recipient amount deadline signature s = (Reverted Invalid_signer, s)"
  by (simp add: withdrawTo_def external_call_def withdrawTo_body_def vault_digest_def)



lemma withdrawTo_transfer_false:
  "block_timestamp ctx \<le> deadline \<Longrightarrow>
   ECDSA_recover env (vault_digest env ctx s recipient amount deadline) signature = Inr recipient \<Longrightarrow>
   nonces s recipient \<noteq> - 1 \<Longrightarrow>
   token_transfer env (token_storage s) (address_this ctx) recipient amount
     = Returned False tok' \<Longrightarrow>
   withdrawTo env ctx recipient amount deadline signature s = (Reverted Transfer_failed, s)"
  by (simp add: withdrawTo_def external_call_def withdrawTo_body_def vault_digest_def)

lemma withdrawTo_success:
  "block_timestamp ctx \<le> deadline \<Longrightarrow>
   ECDSA_recover env (vault_digest env ctx s recipient amount deadline) signature = Inr recipient \<Longrightarrow>
   nonces s recipient \<noteq> - 1 \<Longrightarrow>
   token_transfer env (token_storage s) (address_this ctx) recipient amount
     = Returned True tok' \<Longrightarrow>
   withdrawTo env ctx recipient amount deadline signature s
     = (Success, withdraw_state s recipient amount tok')"
  by (simp add: withdrawTo_def external_call_def withdrawTo_body_def vault_digest_def
      withdraw_state_def Let_def)

lemma withdrawTo_Success_iff:
  "withdrawTo env ctx recipient amount deadline signature s = (Success, s') \<longleftrightarrow>
   block_timestamp ctx \<le> deadline \<and>
   ECDSA_recover env (vault_digest env ctx s recipient amount deadline) signature = Inr recipient \<and>
   nonces s recipient \<noteq> - 1 \<and>
   (\<exists>tok'. token_transfer env (token_storage s) (address_this ctx) recipient amount
              = Returned True tok' \<and> s' = withdraw_state s recipient amount tok')"
  by (auto simp: withdrawTo_def external_call_def withdrawTo_body_def vault_digest_def
      withdraw_state_def Let_def split: if_splits sum.splits call_result.splits)

lemma withdrawTo_reverted_state:
  "fst (withdrawTo env ctx recipient amount deadline signature s) = Reverted e \<Longrightarrow>
   snd (withdrawTo env ctx recipient amount deadline signature s) = s"
  by (simp add: withdrawTo_def external_call_def split: prod.splits option.splits)

section \<open>What the digest binds\<close>

text \<open>
  The encodings are injective: every field of the message and of the domain has its
  own 32 bytes, and the two strings of the domain are hashed on their own. So two
  digests are equal only if the fields are equal or the hash collides somewhere.
\<close>

lemma of_char_byte_inject: "(of_char c :: byte) = of_char c' \<longleftrightarrow> c = c'"
proof
  assume eq: "(of_char c :: byte) = of_char c'"
  have u: "unat (of_char x :: byte) = of_char x" for x
  proof -
    have "(of_char x :: byte) = of_nat (of_char x)"
      by (simp add: of_nat_of_char)
    then have "unat (of_char x :: byte) = of_char x mod 256"
      by (simp add: unat_of_nat)
    then show ?thesis
      by simp
  qed
  from eq have "unat (of_char c :: byte) = unat (of_char c' :: byte)"
    by simp
  then have "(of_char c :: nat) = of_char c'"
    by (simp add: u)
  then show "c = c'"
    by simp
qed simp

lemma string_bytes_inject: "string_bytes x = string_bytes y \<longleftrightarrow> x = y"
proof
  assume "string_bytes x = string_bytes y"
  then show "x = y"
  proof (induction x arbitrary: y)
    case Nil
    then show ?case by (simp add: string_bytes_def)
  next
    case (Cons c x)
    then show ?case
      by (cases y) (auto simp: string_bytes_def of_char_byte_inject)
  qed
qed simp

lemma typed_data_preimage_inject:
  "typed_data_preimage h D sh = typed_data_preimage h D' sh' \<longleftrightarrow>
     buildDomainSeparator h D = buildDomainSeparator h D' \<and> sh = sh'"
proof -
  have "bytes32_of x @ bytes32_of y = bytes32_of x' @ bytes32_of y' \<longleftrightarrow> x = x' \<and> y = y'"
    for x y x' y'
    by (simp add: length_bytes32_of bytes32_of_inject)
  then show ?thesis
    by (simp add: typed_data_preimage_def)
qed

lemma struct_preimage_inject:
  "struct_preimage h r a n d = struct_preimage h r' a' n' d' \<longleftrightarrow>
     r = r' \<and> a = a' \<and> n = n' \<and> d = d'"
  by (simp add: struct_preimage_def abi_encode_inject abi_address_inject)

lemma domain_preimage_inject:
  "domain_preimage h D = domain_preimage h D' \<longleftrightarrow>
     h (string_bytes (name D)) = h (string_bytes (name D')) \<and>
     h (string_bytes (version D)) = h (string_bytes (version D')) \<and>
     chainId D = chainId D' \<and> verifyingContract D = verifyingContract D'"
  by (simp add: domain_preimage_def abi_encode_inject abi_address_inject)

lemma withdraw_digest_preimages:
  "withdraw_digest h D r a n d
     = h (typed_data_preimage h D (h (struct_preimage h r a n d)))"
  "withdraw_structHash h r a n d = h (struct_preimage h r a n d)"
  "buildDomainSeparator h D = h (domain_preimage h D)"
  by (simp_all add: withdraw_digest_def hashTypedDataV4_def toTypedDataHash_def
      typed_data_preimage_def withdraw_structHash_def struct_preimage_def
      buildDomainSeparator_def domain_preimage_def)

lemma withdraw_digest_nonce_inject:
  assumes "no_collision h (struct_preimage h r a n d) (struct_preimage h r a n' d)"
    and "no_collision h (typed_data_preimage h D (withdraw_structHash h r a n d))
           (typed_data_preimage h D (withdraw_structHash h r a n' d))"
    and "withdraw_digest h D r a n d = withdraw_digest h D r a n' d"
  shows "n = n'"
proof -
  from assms(2,3) have "typed_data_preimage h D (withdraw_structHash h r a n d)
      = typed_data_preimage h D (withdraw_structHash h r a n' d)"
    by (simp add: no_collision_def withdraw_digest_preimages)
  then have "h (struct_preimage h r a n d) = h (struct_preimage h r a n' d)"
    by (simp add: typed_data_preimage_inject withdraw_digest_preimages)
  with assms(1) have "struct_preimage h r a n d = struct_preimage h r a n' d"
    by (simp add: no_collision_def)
  then show ?thesis
    by (simp add: struct_preimage_inject)
qed

lemma buildDomainSeparator_inject:
  assumes "no_collision h (string_bytes (name D1)) (string_bytes (name D2))"
    and "no_collision h (string_bytes (version D1)) (string_bytes (version D2))"
    and "no_collision h (domain_preimage h D1) (domain_preimage h D2)"
    and "buildDomainSeparator h D1 = buildDomainSeparator h D2"
  shows "name D1 = name D2 \<and> version D1 = version D2 \<and> chainId D1 = chainId D2 \<and>
         verifyingContract D1 = verifyingContract D2"
proof -
  from assms(3,4) have "domain_preimage h D1 = domain_preimage h D2"
    by (simp add: no_collision_def withdraw_digest_preimages)
  then have fields: "h (string_bytes (name D1)) = h (string_bytes (name D2))"
    "h (string_bytes (version D1)) = h (string_bytes (version D2))"
    "chainId D1 = chainId D2" "verifyingContract D1 = verifyingContract D2"
    by (simp_all add: domain_preimage_inject)
  from fields(1) assms(1) have "name D1 = name D2"
    by (simp add: no_collision_def string_bytes_inject)
  moreover from fields(2) assms(2) have "version D1 = version D2"
    by (simp add: no_collision_def string_bytes_inject)
  ultimately show ?thesis
    using fields(3,4) by simp
qed

section \<open>The counters never go back\<close>

text \<open>
  A successful \<open>withdrawTo\<close> raises the recipient's counter by one and leaves the
  others; nothing else writes a counter. So along any sequence of steps of the vault
  every counter stays or grows, and a signature made over a counter value that has
  been passed is made over a value the vault never holds again.
\<close>

lemma withdrawTo_result_cases:
  obtains (ok) tok' where
      "withdrawTo env ctx recipient amount deadline signature s
         = (Success, withdraw_state s recipient amount tok')"
      "nonces s recipient \<noteq> - 1"
  | (failed) e where
      "withdrawTo env ctx recipient amount deadline signature s = (Reverted e, s)"
proof (cases "fst (withdrawTo env ctx recipient amount deadline signature s)")
  case Success
  then have "withdrawTo env ctx recipient amount deadline signature s
      = (Success, snd (withdrawTo env ctx recipient amount deadline signature s))"
    by (simp add: prod_eq_iff)
  then show ?thesis
    using ok by (auto simp: withdrawTo_Success_iff)
next
  case (Reverted e)
  then show ?thesis
    using failed withdrawTo_reverted_state [of env ctx recipient amount deadline signature s e]
    by (simp add: prod_eq_iff)
qed

lemma unat_nonce_Suc:
  fixes n :: uint256
  assumes "n \<noteq> - 1"
  shows "unat (n + 1) = unat n + 1"
proof -
  have "1 + n \<noteq> 0"
  proof
    assume "1 + n = 0"
    then have "(1 + n) - 1 = 0 - 1"
      by (rule arg_cong)
    then have "n = - 1"
      by simp
    with assms show False
      by simp
  qed
  then have "unat (1 + n) = Suc (unat n)"
    by (rule unatSuc)
  then show ?thesis
    by (simp add: add.commute)
qed

lemma withdrawTo_nonce_mono:
  "unat (nonces s a)
     \<le> unat (nonces (snd (withdrawTo env ctx recipient amount deadline signature s)) a)"
proof (cases rule: withdrawTo_result_cases [of env ctx recipient amount deadline signature s])
  case (ok tok')
  then show ?thesis
    by (simp add: withdraw_state_def unat_nonce_Suc)
next
  case (failed e)
  then show ?thesis
    by simp
qed

lemma transferOwnership_nonces:
  "nonces (snd (transferOwnership msg_sender newOwner s)) = nonces s"
  by (simp add: transferOwnership_def transferOwnership_body_def external_call_def)

lemma transferToken_nonces:
  "nonces (snd (transferToken env ctx msg_sender recipient amount s)) = nonces s"
  by (simp add: transferToken_def transferToken_body_def external_call_def Let_def
      split: call_result.splits)

lemma vault_step_nonce_mono:
  "vault_step env s s' \<Longrightarrow> unat (nonces s a) \<le> unat (nonces s' a)"
  by (induction rule: vault_step.induct)
    (simp_all add: withdrawTo_nonce_mono transferOwnership_nonces transferToken_nonces)

lemma vault_steps_nonce_mono:
  "vault_steps env s s' \<Longrightarrow> unat (nonces s a) \<le> unat (nonces s' a)"
  unfolding vault_steps_def
proof (induction rule: rtranclp_induct)
  case base
  show ?case by simp
next
  case (step y z)
  from step.hyps(2) have "unat (nonces y a) \<le> unat (nonces z a)"
    by (rule vault_step_nonce_mono)
  with step.IH show ?case
    by simp
qed

lemma replay_rejected:
  assumes first: "withdrawTo env ctx recipient amount deadline signature s = (Success, s1)"
    and afterwards: "vault_steps env s1 s2"
    and later: "block_timestamp ctx' \<le> deadline"
    and same_chain: "block_chainid ctx' = block_chainid ctx"
    and same_vault: "address_this ctx' = address_this ctx"
    and struct: "no_collision (keccak256 env)
        (struct_preimage (keccak256 env) recipient amount (nonces s recipient) deadline)
        (struct_preimage (keccak256 env) recipient amount (nonces s2 recipient) deadline)"
    and typed: "no_collision (keccak256 env)
        (typed_data_preimage (keccak256 env) (vault_domain ctx)
           (withdraw_structHash (keccak256 env) recipient amount (nonces s recipient) deadline))
        (typed_data_preimage (keccak256 env) (vault_domain ctx)
           (withdraw_structHash (keccak256 env) recipient amount (nonces s2 recipient) deadline))"
    and another: "recovers_another_signer (ECDSA_recover env) signature recipient
        (vault_digest env ctx s recipient amount deadline)
        (vault_digest env ctx' s2 recipient amount deadline)"
  shows "withdrawTo env ctx' recipient amount deadline signature s2 = (Reverted Invalid_signer, s2)"
proof -
  let ?h = "keccak256 env"
  let ?n = "nonces s recipient"
  let ?n2 = "nonces s2 recipient"
  from first obtain tok' where
    valid: "ECDSA_recover env (vault_digest env ctx s recipient amount deadline) signature
              = Inr recipient"
    and room: "?n \<noteq> - 1"
    and s1: "s1 = withdraw_state s recipient amount tok'"
    by (auto simp: withdrawTo_Success_iff)
  have "unat (nonces s1 recipient) = unat ?n + 1"
    using room by (simp add: s1 withdraw_state_def unat_nonce_Suc)
  moreover have "unat (nonces s1 recipient) \<le> unat ?n2"
    using afterwards by (rule vault_steps_nonce_mono)
  ultimately have moved: "?n \<noteq> ?n2"
    by auto
  have domain: "vault_domain ctx' = vault_domain ctx"
    by (simp add: vault_domain_def same_chain same_vault)
  have digest2: "vault_digest env ctx' s2 recipient amount deadline
      = withdraw_digest ?h (vault_domain ctx) recipient amount ?n2 deadline"
    by (simp add: vault_digest_def domain)
  have "withdraw_digest ?h (vault_domain ctx) recipient amount ?n deadline
      \<noteq> withdraw_digest ?h (vault_domain ctx) recipient amount ?n2 deadline"
  proof
    assume "withdraw_digest ?h (vault_domain ctx) recipient amount ?n deadline
      = withdraw_digest ?h (vault_domain ctx) recipient amount ?n2 deadline"
    with struct typed have "?n = ?n2"
      by (rule withdraw_digest_nonce_inject)
    with moved show False
      by simp
  qed
  then have "vault_digest env ctx s recipient amount deadline
      \<noteq> vault_digest env ctx' s2 recipient amount deadline"
    by (simp add: digest2) (simp add: vault_digest_def)
  with another valid obtain b where
    "ECDSA_recover env (vault_digest env ctx' s2 recipient amount deadline) signature = Inr b"
    and "b \<noteq> recipient"
    by (auto simp: recovers_another_signer_def split: sum.splits)
  with later show ?thesis
    by (simp add: withdrawTo_wrong_signer)
qed

section \<open>Properties of the executable instance\<close>

lemma length_demo_sign: "length (demo_sign a digest) = 65"
  by (simp add: demo_sign_def length_bytes32_of)

lemma demo_recover_demo_sign:
  "demo_recover d' (demo_sign a d) =
     (if (ucast (ucast a + (d' - d) :: 256 word) :: address) = 0 then Inl InvalidSignature
      else Inr (ucast (ucast a + (d' - d) :: 256 word)))"
proof -
  have r: "take 32 (demo_sign a d) = bytes32_of d"
    by (simp add: demo_sign_def length_bytes32_of)
  have s: "take 32 (drop 32 (demo_sign a d)) = bytes32_of (ucast a)"
    by (simp add: demo_sign_def length_bytes32_of)
  show ?thesis
    by (simp add: demo_recover_def length_demo_sign r s be_nat_bytes32_of Let_def)
qed

lemma demo_recover_own_digest:
  "a \<noteq> 0 \<Longrightarrow> demo_recover d (demo_sign a d) = Inr a"
  by (simp add: demo_recover_demo_sign ucast_up_ucast_id is_up)

lemma demo_env_simps:
  "keccak256 demo_env = demo_keccak256"
  "ECDSA_recover demo_env = demo_recover"
  "token_transfer demo_env = demo_transfer"
  by (simp_all add: demo_env_def)

lemma demo_ctx_simps:
  "block_timestamp (demo_ctx now) = now"
  "block_chainid (demo_ctx now) = 1"
  "address_this (demo_ctx now) = 0xABCD"
  by (simp_all add: demo_ctx_def)

lemma demo_state_simps:
  "nonces (demo_state bal) a = 0"
  "token_storage (demo_state bal) = bal"
  "logs (demo_state bal) = []"
  by (simp_all add: demo_state_def)

lemma demo_keccak256_short: "length bs \<le> 32 \<Longrightarrow> demo_keccak256 bs = of_nat (be_nat bs 0)"
  by (subst demo_keccak256.simps) simp

lemma demo_keccak256_bytes32: "demo_keccak256 (bytes32_of w) = w"
  by (simp add: demo_keccak256_short length_bytes32_of be_nat_bytes32_of)

lemma demo_keccak256_snoc:
  "xs \<noteq> [] \<Longrightarrow> demo_keccak256 (xs @ bytes32_of w) = demo_keccak256 xs + w"
  by (subst demo_keccak256.simps) (simp add: length_bytes32_of be_nat_bytes32_of)

lemma abi_encode_snoc: "abi_encode (ws @ [w]) = abi_encode ws @ bytes32_of w"
  by (simp add: abi_encode_def)

lemma length_abi_encode: "length (abi_encode ws) = 32 * length ws"
  by (induction ws) (simp_all add: abi_encode_def length_bytes32_of)

lemma abi_encode_eq_Nil: "abi_encode ws = [] \<longleftrightarrow> ws = []"
  using length_abi_encode [of ws] by auto

lemma demo_keccak256_abi_encode: "demo_keccak256 (abi_encode ws) = sum_list ws"
proof (induction ws rule: rev_induct)
  case Nil
  show ?case
    by (simp add: demo_keccak256_short abi_encode_def)
next
  case (snoc w ws)
  show ?case
  proof (cases "ws = []")
    case True
    then show ?thesis
      by (simp add: abi_encode_def demo_keccak256_bytes32)
  next
    case False
    then have "abi_encode ws \<noteq> []"
      by (simp add: abi_encode_eq_Nil)
    then show ?thesis
      by (simp add: abi_encode_snoc demo_keccak256_snoc snoc.IH)
  qed
qed

lemma demo_toTypedDataHash:
  "toTypedDataHash demo_keccak256 ds sh = 6401 + ds + sh"
proof -
  have "demo_keccak256 ([0x19, 0x01] @ bytes32_of ds @ bytes32_of sh)
          = demo_keccak256 (([0x19, 0x01] @ bytes32_of ds) @ bytes32_of sh)"
    by simp
  also have "\<dots> = demo_keccak256 ([0x19, 0x01] @ bytes32_of ds) + sh"
    by (rule demo_keccak256_snoc) simp
  also have "demo_keccak256 ([0x19, 0x01] @ bytes32_of ds) = demo_keccak256 [0x19, 0x01] + ds"
    by (rule demo_keccak256_snoc) simp
  also have "demo_keccak256 [0x19, 0x01] = 6401"
    by (simp add: demo_keccak256_short)
  finally show ?thesis
    by (simp add: toTypedDataHash_def)
qed

lemma demo_structHash:
  "withdraw_structHash demo_keccak256 r a n d
     = WITHDRAW_TYPEHASH demo_keccak256 + abi_address r + a + n + d"
  by (simp add: withdraw_structHash_def demo_keccak256_abi_encode add.assoc)

lemma demo_domainSeparator:
  "buildDomainSeparator demo_keccak256 D
     = demo_keccak256 (string_bytes EIP712Domain_TYPE) + demo_keccak256 (string_bytes (name D))
       + demo_keccak256 (string_bytes (version D)) + chainId D
       + abi_address (verifyingContract D)"
  by (simp add: buildDomainSeparator_def demo_keccak256_abi_encode add.assoc)

lemma demo_digest:
  "withdraw_digest demo_keccak256 D r a n d
     = 6401 + buildDomainSeparator demo_keccak256 D
       + (WITHDRAW_TYPEHASH demo_keccak256 + abi_address r + a + n + d)"
  by (simp add: withdraw_digest_def hashTypedDataV4_def demo_toTypedDataHash demo_structHash)

lemma demo_digest_nonce:
  "withdraw_digest demo_keccak256 D r a n' d - withdraw_digest demo_keccak256 D r a n d = n' - n"
  by (simp add: demo_digest)

lemma vault_domain_demo_ctx: "vault_domain (demo_ctx now) = DOMAIN 1 0xABCD"
  by (simp add: vault_domain_def demo_ctx_def DOMAIN_def SIGNING_DOMAIN_def SIGNATURE_VERSION_def)

lemma demo_vault_digest:
  "vault_digest demo_env (demo_ctx now) s r a d
     = withdraw_digest demo_keccak256 (DOMAIN 1 0xABCD) r a (nonces s r) d"
  by (simp add: vault_digest_def vault_domain_demo_ctx demo_env_simps)

lemma demo_recover_signature:
  "ECDSA_recover demo_env (vault_digest demo_env (demo_ctx now) s r a d)
       (demo_signature signer r a n d)
     = (if (ucast (abi_address signer + (nonces s r - n)) :: address) = 0 then Inl InvalidSignature
        else Inr (ucast (abi_address signer + (nonces s r - n))))"
  by (simp add: demo_vault_digest demo_signature_def demo_env_simps demo_recover_demo_sign
      demo_digest_nonce abi_address_def)

lemma demo_recover_own_signature:
  "ECDSA_recover demo_env (vault_digest demo_env (demo_ctx now) (demo_state bal) 0x1234 a d)
       (demo_signature 0x1234 0x1234 a 0 d) = Inr 0x1234"
  by (simp add: demo_recover_signature demo_state_simps abi_address_def)

lemma demo_recover_other_signature:
  "ECDSA_recover demo_env (vault_digest demo_env (demo_ctx now) (demo_state bal) 0x1234 a d)
       (demo_signature 0x9999 0x1234 a 0 d) = Inr 0x9999"
  by (simp add: demo_recover_signature demo_state_simps abi_address_def)

lemma demo_withdrawTo_ok:
  "withdrawTo demo_env (demo_ctx 1000) 0x1234 100 2000
       (demo_signature 0x1234 0x1234 100 0 2000) (demo_state 5000)
     = (Success, withdraw_state (demo_state 5000) 0x1234 100 4900)"
  by (rule withdrawTo_success [OF _ demo_recover_own_signature])
    (simp_all add: demo_env_simps(3) demo_ctx_simps demo_state_simps demo_transfer_def)

lemma demo_withdrawTo_underfunded:
  "withdrawTo demo_env (demo_ctx 1000) 0x1234 100 2000
       (demo_signature 0x1234 0x1234 100 0 2000) (demo_state 50)
     = (Reverted Transfer_failed, demo_state 50)"
  by (rule withdrawTo_transfer_false [OF _ demo_recover_own_signature, where tok' = 50])
    (simp_all add: demo_env_simps(3) demo_ctx_simps demo_state_simps demo_transfer_def)

lemma demo_nonce_after:
  "nonces (withdraw_state (demo_state bal) 0x1234 a tok') 0x1234 = 1"
  by (simp add: withdraw_state_def demo_state_simps)



lemma demo_no_collision:
  "demo_keccak256 x \<noteq> demo_keccak256 y \<Longrightarrow> no_collision demo_keccak256 x y"
  by (simp add: no_collision_def)

lemma demo_struct_preimage:
  "demo_keccak256 (struct_preimage demo_keccak256 r a n d)
     = WITHDRAW_TYPEHASH demo_keccak256 + abi_address r + a + n + d"
  using demo_structHash [of r a n d] by (simp add: withdraw_digest_preimages)

lemma demo_typed_data_preimage:
  "demo_keccak256 (typed_data_preimage demo_keccak256 D sh)
     = 6401 + buildDomainSeparator demo_keccak256 D + sh"
  using demo_toTypedDataHash [of "buildDomainSeparator demo_keccak256 D" sh]
  by (simp add: toTypedDataHash_def typed_data_preimage_def)

lemma demo_domain_preimage:
  "demo_keccak256 (domain_preimage demo_keccak256 D) = buildDomainSeparator demo_keccak256 D"
  by (simp add: withdraw_digest_preimages)

lemma demo_domainSeparator_chain:
  "buildDomainSeparator demo_keccak256 (DOMAIN 2 0xABCD)
     = buildDomainSeparator demo_keccak256 (DOMAIN 1 0xABCD) + 1"
  by (simp add: demo_domainSeparator DOMAIN_def)

lemma demo_digest_chain:
  "withdraw_digest demo_keccak256 (DOMAIN 2 0xABCD) r a n d
     = withdraw_digest demo_keccak256 (DOMAIN 1 0xABCD) r a n d + 1"
  by (simp add: demo_digest demo_domainSeparator_chain)


lemma demo_state1_simps:
  "nonces demo_state1 0x1234 = 1"
  "nonces demo_state1 0x5678 = 0"
  "token_storage demo_state1 = 4900"
  by (simp_all add: demo_state1_def withdraw_state_def demo_state_simps)

lemma demo_state2_simps:
  "nonces demo_state2 0x1234 = 1"
  by (simp_all add: demo_state2_def withdraw_state_def demo_state1_simps)

lemma demo_withdrawTo_second_account:
  "withdrawTo demo_env (demo_ctx 1200) 0x5678 200 3000
       (demo_signature 0x5678 0x5678 200 0 3000) demo_state1
     = (Success, demo_state2)"
  unfolding demo_state2_def
proof (rule withdrawTo_success)
  show "block_timestamp (demo_ctx 1200) \<le> 3000"
    by (simp add: demo_ctx_simps)
  show "ECDSA_recover demo_env (vault_digest demo_env (demo_ctx 1200) demo_state1 0x5678 200 3000)
       (demo_signature 0x5678 0x5678 200 0 3000) = Inr 0x5678"
    by (simp add: demo_recover_signature demo_state1_simps abi_address_def)
  show "nonces demo_state1 0x5678 \<noteq> - 1"
    by (simp add: demo_state1_simps)
  show "token_transfer demo_env (token_storage demo_state1) (address_this (demo_ctx 1200))
       0x5678 200 = Returned True 4700"
    by (simp add: demo_env_simps demo_state1_simps demo_transfer_def)
qed

lemma demo_vault_steps: "vault_steps demo_env demo_state1 demo_state2"
proof -
  have "vault_step demo_env demo_state1
      (snd (withdrawTo demo_env (demo_ctx 1200) 0x5678 200 3000
              (demo_signature 0x5678 0x5678 200 0 3000) demo_state1))"
    by (rule vault_step.call_withdrawTo)
  then have "vault_step demo_env demo_state1 demo_state2"
    by (simp add: demo_withdrawTo_second_account)
  then show ?thesis
    by (simp add: vault_steps_def)
qed

lemma demo_recover_replay2:
  "ECDSA_recover demo_env (vault_digest demo_env (demo_ctx now) demo_state2 0x1234 a d)
       (demo_signature 0x1234 0x1234 a 0 d) = Inr 0x1235"
  by (simp add: demo_recover_signature demo_state2_simps abi_address_def)



section \<open>The deadline\<close>

text \<open>
  C3, as the code has it. The deadline is inclusive. A call whose deadline is strictly
  before the block time reverts with the expiration error whatever the signature is; a
  call whose deadline equals the block time is never rejected for expiry, and succeeds
  when the signature recovers the recipient, the counter is below \<open>2^256 - 1\<close> and the
  token transfer returns true.
\<close>

theorem withdrawTo_deadline_inclusive:
  "(deadline < block_timestamp ctx \<longrightarrow>
      withdrawTo env ctx recipient amount deadline signature s
        = (Reverted Signature_expired, s)) \<and>
   (deadline = block_timestamp ctx \<longrightarrow>
      fst (withdrawTo env ctx recipient amount deadline signature s)
        \<noteq> Reverted Signature_expired) \<and>
   (deadline = block_timestamp ctx \<and>
    ECDSA_recover env (vault_digest env ctx s recipient amount deadline) signature
      = Inr recipient \<and>
    nonces s recipient \<noteq> - 1 \<and>
    token_transfer env (token_storage s) (address_this ctx) recipient amount
      = Returned True tok' \<longrightarrow>
      withdrawTo env ctx recipient amount deadline signature s
        = (Success, withdraw_state s recipient amount tok'))"
proof (intro conjI impI)
  assume "deadline < block_timestamp ctx"
  then show "withdrawTo env ctx recipient amount deadline signature s
               = (Reverted Signature_expired, s)"
    by (rule withdrawTo_expired)
next
  assume "deadline = block_timestamp ctx"
  then show "fst (withdrawTo env ctx recipient amount deadline signature s)
               \<noteq> Reverted Signature_expired"
    by (simp add: withdrawTo_def external_call_def withdrawTo_body_def Let_def
        split: sum.splits call_result.splits)
next
  assume "deadline = block_timestamp ctx \<and>
    ECDSA_recover env (vault_digest env ctx s recipient amount deadline) signature
      = Inr recipient \<and>
    nonces s recipient \<noteq> - 1 \<and>
    token_transfer env (token_storage s) (address_this ctx) recipient amount
      = Returned True tok'"
  then have "block_timestamp ctx \<le> deadline"
    and "ECDSA_recover env (vault_digest env ctx s recipient amount deadline) signature
           = Inr recipient"
    and "nonces s recipient \<noteq> - 1"
    and "token_transfer env (token_storage s) (address_this ctx) recipient amount
           = Returned True tok'"
    by auto
  then show "withdrawTo env ctx recipient amount deadline signature s
               = (Success, withdraw_state s recipient amount tok')"
    by (rule withdrawTo_success)
qed

theorem withdrawTo_deadline_inclusive_witness:
  "withdrawTo demo_env (demo_ctx 1000) 0x1234 100 999
       (demo_signature 0x1234 0x1234 100 0 999) (demo_state 5000)
     = (Reverted Signature_expired, demo_state 5000) \<and>
   withdrawTo demo_env (demo_ctx 1000) 0x1234 100 1000
       (demo_signature 0x1234 0x1234 100 0 1000) (demo_state 5000)
     = (Success, withdraw_state (demo_state 5000) 0x1234 100 4900)"
  using
    withdrawTo_deadline_inclusive [of 999 "demo_ctx 1000" demo_env "0x1234" 100
      "demo_signature 0x1234 0x1234 100 0 999" "demo_state 5000"]
    withdrawTo_deadline_inclusive [of 1000 "demo_ctx 1000" demo_env "0x1234" 100
      "demo_signature 0x1234 0x1234 100 0 1000" "demo_state 5000" 4900]
  by (simp add: demo_recover_own_signature demo_env_simps(3) demo_ctx_simps demo_state_simps
      demo_transfer_def)

text \<open>
  The claim that an authorization valid in every other respect succeeds at the boundary
  fails: at a deadline equal to the block time, with the recipient's own signature,
  a vault that holds 50 tokens and is asked for 100 reverts with the transfer error.
\<close>

theorem withdrawTo_boundary_underfunded:
  "block_timestamp (demo_ctx 1000) = 1000 \<and>
   ECDSA_recover demo_env (vault_digest demo_env (demo_ctx 1000) (demo_state 50) 0x1234 100 1000)
       (demo_signature 0x1234 0x1234 100 0 1000) = Inr 0x1234 \<and>
   withdrawTo demo_env (demo_ctx 1000) 0x1234 100 1000
       (demo_signature 0x1234 0x1234 100 0 1000) (demo_state 50)
     = (Reverted Transfer_failed, demo_state 50)"
proof -
  have "withdrawTo demo_env (demo_ctx 1000) 0x1234 100 1000
       (demo_signature 0x1234 0x1234 100 0 1000) (demo_state 50)
     = (Reverted Transfer_failed, demo_state 50)"
    by (rule withdrawTo_transfer_false [OF _ demo_recover_own_signature, where tok' = 50])
      (simp_all add: demo_env_simps(3) demo_ctx_simps demo_state_simps demo_transfer_def)
  then show ?thesis
    by (simp add: demo_recover_own_signature demo_ctx_simps)
qed

section \<open>A valid authorization\<close>

text \<open>
  C1, as the code has it. When the block time is at most the deadline, the signature
  recovers the recipient over the digest of the message at the stored counter, the
  counter is below \<open>2^256 - 1\<close> and the token transfer returns true, the call succeeds
  and the recipient's counter is exactly one higher.
\<close>

theorem withdrawTo_valid_succeeds:
  assumes "block_timestamp ctx \<le> deadline"
    and "ECDSA_recover env (vault_digest env ctx s recipient amount deadline) signature
           = Inr recipient"
    and "nonces s recipient \<noteq> - 1"
    and "token_transfer env (token_storage s) (address_this ctx) recipient amount
           = Returned True tok'"
  shows "fst (withdrawTo env ctx recipient amount deadline signature s) = Success \<and>
         unat (nonces (snd (withdrawTo env ctx recipient amount deadline signature s)) recipient)
           = unat (nonces s recipient) + 1"
proof -
  have run: "withdrawTo env ctx recipient amount deadline signature s
               = (Success, withdraw_state s recipient amount tok')"
    using assms by (rule withdrawTo_success)
  have "1 + nonces s recipient \<noteq> 0"
  proof
    assume "1 + nonces s recipient = 0"
    then have "(1 + nonces s recipient) - 1 = 0 - 1"
      by (rule arg_cong)
    then have "nonces s recipient = - 1"
      by simp
    with assms(3) show False
      by simp
  qed
  then have "unat (1 + nonces s recipient) = Suc (unat (nonces s recipient))"
    by (rule unatSuc)
  then have "unat (nonces s recipient + 1) = unat (nonces s recipient) + 1"
    by (simp add: add.commute)
  then show ?thesis
    by (simp add: run withdraw_state_def)
qed

theorem withdrawTo_valid_succeeds_witness:
  "fst (withdrawTo demo_env (demo_ctx 1000) 0x1234 100 2000
         (demo_signature 0x1234 0x1234 100 0 2000) (demo_state 5000)) = Success \<and>
   unat (nonces (snd (withdrawTo demo_env (demo_ctx 1000) 0x1234 100 2000
         (demo_signature 0x1234 0x1234 100 0 2000) (demo_state 5000))) 0x1234) = 1"
  using withdrawTo_valid_succeeds [of "demo_ctx 1000" 2000 demo_env "demo_state 5000" "0x1234" 100
      "demo_signature 0x1234 0x1234 100 0 2000" 4900]
  by (simp add: demo_recover_own_signature demo_env_simps(3) demo_ctx_simps demo_state_simps
      demo_transfer_def)

text \<open>
  The claim without the last two conditions fails: the deadline is in the future and the
  recipient's own signature is presented, but the vault holds 50 tokens and 100 are
  asked for, so \<open>token.transfer\<close> returns false and the call reverts.
\<close>

theorem withdrawTo_valid_but_transfer_fails:
  "block_timestamp (demo_ctx 1000) \<le> 2000 \<and>
   ECDSA_recover demo_env (vault_digest demo_env (demo_ctx 1000) (demo_state 50) 0x1234 100 2000)
       (demo_signature 0x1234 0x1234 100 0 2000) = Inr 0x1234 \<and>
   withdrawTo demo_env (demo_ctx 1000) 0x1234 100 2000
       (demo_signature 0x1234 0x1234 100 0 2000) (demo_state 50)
     = (Reverted Transfer_failed, demo_state 50)"
proof -
  have "withdrawTo demo_env (demo_ctx 1000) 0x1234 100 2000
       (demo_signature 0x1234 0x1234 100 0 2000) (demo_state 50)
     = (Reverted Transfer_failed, demo_state 50)"
    by (rule withdrawTo_transfer_false [OF _ demo_recover_own_signature, where tok' = 50])
      (simp_all add: demo_env_simps(3) demo_ctx_simps demo_state_simps demo_transfer_def)
  then show ?thesis
    by (simp add: demo_recover_own_signature demo_ctx_simps)
qed

section \<open>A signature by somebody else\<close>

text \<open>
  C4, as the code has it. When the signature recovers an address other than the
  recipient, the call reverts and the state is as before; the error is the
  invalid-signer error when the deadline has not passed, and the expiration error
  otherwise, because the deadline is checked first. A call succeeds only if the
  signature recovers the recipient: no other address can authorize the withdrawal.
\<close>

theorem withdrawTo_other_signer_fails:
  "(ECDSA_recover env (vault_digest env ctx s recipient amount deadline) signature = Inr signer \<and>
    signer \<noteq> recipient \<longrightarrow>
      withdrawTo env ctx recipient amount deadline signature s
        = (Reverted (if block_timestamp ctx \<le> deadline then Invalid_signer
                     else Signature_expired), s)) \<and>
   (fst (withdrawTo env ctx recipient amount deadline signature s) = Success \<longrightarrow>
      ECDSA_recover env (vault_digest env ctx s recipient amount deadline) signature
        = Inr recipient)"
proof (intro conjI impI)
  assume other: "ECDSA_recover env (vault_digest env ctx s recipient amount deadline) signature
      = Inr signer \<and> signer \<noteq> recipient"
  show "withdrawTo env ctx recipient amount deadline signature s
          = (Reverted (if block_timestamp ctx \<le> deadline then Invalid_signer
                       else Signature_expired), s)"
  proof (cases "block_timestamp ctx \<le> deadline")
    case True
    then show ?thesis
      using other by (simp add: withdrawTo_wrong_signer)
  next
    case False
    then show ?thesis
      by (simp add: withdrawTo_expired not_le)
  qed
next
  assume "fst (withdrawTo env ctx recipient amount deadline signature s) = Success"
  then have "withdrawTo env ctx recipient amount deadline signature s
      = (Success, snd (withdrawTo env ctx recipient amount deadline signature s))"
    by (simp add: prod_eq_iff)
  then show "ECDSA_recover env (vault_digest env ctx s recipient amount deadline) signature
      = Inr recipient"
    by (simp add: withdrawTo_Success_iff)
qed

theorem withdrawTo_other_signer_fails_witness:
  "withdrawTo demo_env (demo_ctx 1000) 0x1234 100 2000
       (demo_signature 0x9999 0x1234 100 0 2000) (demo_state 5000)
     = (Reverted Invalid_signer, demo_state 5000) \<and>
   ECDSA_recover demo_env (vault_digest demo_env (demo_ctx 1000) (demo_state 5000) 0x1234 100 2000)
       (demo_signature 0x1234 0x1234 100 0 2000) = Inr 0x1234"
  using
    withdrawTo_other_signer_fails [of demo_env "demo_ctx 1000" "demo_state 5000" "0x1234" 100
      2000 "demo_signature 0x9999 0x1234 100 0 2000" "0x9999"]
    withdrawTo_other_signer_fails [of demo_env "demo_ctx 1000" "demo_state 5000" "0x1234" 100
      2000 "demo_signature 0x1234 0x1234 100 0 2000"]
  by (simp add: demo_recover_other_signature demo_ctx_simps demo_withdrawTo_ok)

text \<open>
  The claim with the invalid-signer error for every call fails: with the deadline
  already passed, a signature that recovers another address is rejected with the
  expiration error.
\<close>

theorem withdrawTo_other_signer_expired:
  "ECDSA_recover demo_env (vault_digest demo_env (demo_ctx 1000) (demo_state 5000) 0x1234 100 999)
       (demo_signature 0x9999 0x1234 100 0 999) = Inr 0x9999 \<and>
   (0x9999 :: address) \<noteq> 0x1234 \<and>
   withdrawTo demo_env (demo_ctx 1000) 0x1234 100 999
       (demo_signature 0x9999 0x1234 100 0 999) (demo_state 5000)
     = (Reverted Signature_expired, demo_state 5000) \<and>
   Reverted Signature_expired \<noteq> Reverted Invalid_signer"
  by (simp add: demo_recover_other_signature withdrawTo_expired demo_ctx_simps)

section \<open>The audit record\<close>

text \<open>
  C8. A successful call appends exactly one \<open>Withdraw\<close> event to the log, carrying the
  recipient, the amount and the counter value read before the increment (the stored
  counter is then one higher, so the two differ); a call that does not succeed leaves
  the log as it was.
\<close>

theorem withdrawTo_audit_record:
  "(withdrawTo env ctx recipient amount deadline signature s = (Success, s') \<longrightarrow>
      logs s' = logs s @ [Withdraw recipient amount (nonces s recipient)] \<and>
      nonces s' recipient = nonces s recipient + 1 \<and>
      nonces s recipient \<noteq> nonces s' recipient) \<and>
   (fst (withdrawTo env ctx recipient amount deadline signature s) \<noteq> Success \<longrightarrow>
      logs (snd (withdrawTo env ctx recipient amount deadline signature s)) = logs s)"
proof (intro conjI impI)
  assume "withdrawTo env ctx recipient amount deadline signature s = (Success, s')"
  then obtain tok' where s': "s' = withdraw_state s recipient amount tok'"
    by (auto simp: withdrawTo_Success_iff)
  show "logs s' = logs s @ [Withdraw recipient amount (nonces s recipient)]"
    by (simp add: s' withdraw_state_def)
  show "nonces s' recipient = nonces s recipient + 1"
    by (simp add: s' withdraw_state_def)
  show "nonces s recipient \<noteq> nonces s' recipient"
    by (simp add: s' withdraw_state_def)
next
  assume "fst (withdrawTo env ctx recipient amount deadline signature s) \<noteq> Success"
  then obtain e where "fst (withdrawTo env ctx recipient amount deadline signature s) = Reverted e"
    by (cases "fst (withdrawTo env ctx recipient amount deadline signature s)") auto
  then show "logs (snd (withdrawTo env ctx recipient amount deadline signature s)) = logs s"
    by (simp add: withdrawTo_reverted_state)
qed

theorem withdrawTo_audit_record_witness:
  "logs (snd (withdrawTo demo_env (demo_ctx 1000) 0x1234 100 2000
                (demo_signature 0x1234 0x1234 100 0 2000) (demo_state 5000)))
     = [Withdraw 0x1234 100 0] \<and>
   nonces (snd (withdrawTo demo_env (demo_ctx 1000) 0x1234 100 2000
                  (demo_signature 0x1234 0x1234 100 0 2000) (demo_state 5000))) 0x1234 = 1 \<and>
   logs (snd (withdrawTo demo_env (demo_ctx 1000) 0x1234 100 2000
                (demo_signature 0x1234 0x1234 100 0 2000) (demo_state 50))) = []"
  using
    withdrawTo_audit_record [of demo_env "demo_ctx 1000" "0x1234" 100 2000
      "demo_signature 0x1234 0x1234 100 0 2000" "demo_state 5000"
      "withdraw_state (demo_state 5000) 0x1234 100 4900"]
    withdrawTo_audit_record [of demo_env "demo_ctx 1000" "0x1234" 100 2000
      "demo_signature 0x1234 0x1234 100 0 2000" "demo_state 50"]
  by (simp add: demo_withdrawTo_ok demo_withdrawTo_underfunded demo_state_simps)

section \<open>Atomicity\<close>

text \<open>
  The write to the counter is real: when the transfer returns false, the body has
  already stored the incremented counter at the point where it fails.
\<close>

lemma withdrawTo_body_transfer_false:
  "block_timestamp ctx \<le> deadline \<Longrightarrow>
   ECDSA_recover env (vault_digest env ctx s recipient amount deadline) signature = Inr recipient \<Longrightarrow>
   nonces s recipient \<noteq> - 1 \<Longrightarrow>
   token_transfer env (token_storage s) (address_this ctx) recipient amount
     = Returned False tok' \<Longrightarrow>
   withdrawTo_body env ctx recipient amount deadline signature s
     = (Some Transfer_failed,
        s\<lparr>nonces := (nonces s)(recipient := nonces s recipient + 1), token_storage := tok'\<rparr>)"
  by (simp add: withdrawTo_body_def vault_digest_def Let_def)

text \<open>
  C10. Whenever the call does not succeed, for whichever reason, the state after it is
  the state before it. A state in which the recipient's counter has moved is reached
  only by a successful call whose transfer returned true and whose token storage is the
  one that transfer left: a consumed nonce without a transfer does not occur.
\<close>

theorem withdrawTo_atomic:
  "(fst (withdrawTo env ctx recipient amount deadline signature s) \<noteq> Success \<longrightarrow>
      snd (withdrawTo env ctx recipient amount deadline signature s) = s) \<and>
   (nonces (snd (withdrawTo env ctx recipient amount deadline signature s)) recipient
      \<noteq> nonces s recipient \<longrightarrow>
      fst (withdrawTo env ctx recipient amount deadline signature s) = Success \<and>
      token_transfer env (token_storage s) (address_this ctx) recipient amount
        = Returned True
            (token_storage (snd (withdrawTo env ctx recipient amount deadline signature s))))"
proof -
  let ?r = "withdrawTo env ctx recipient amount deadline signature s"
  have failed: "snd ?r = s" if "fst ?r \<noteq> Success"
  proof -
    from that obtain e where "fst ?r = Reverted e"
      by (cases "fst ?r") auto
    then show ?thesis
      by (rule withdrawTo_reverted_state)
  qed
  have moved: "fst ?r = Success \<and>
      token_transfer env (token_storage s) (address_this ctx) recipient amount
        = Returned True (token_storage (snd ?r))"
    if "nonces (snd ?r) recipient \<noteq> nonces s recipient"
  proof -
    have ok: "fst ?r = Success"
      using that failed by fastforce
    then have "?r = (Success, snd ?r)"
      by (simp add: prod_eq_iff)
    then obtain tok' where
      "token_transfer env (token_storage s) (address_this ctx) recipient amount
         = Returned True tok'"
      and "snd ?r = withdraw_state s recipient amount tok'"
      by (auto simp: withdrawTo_Success_iff)
    then show ?thesis
      using ok by (simp add: withdraw_state_def)
  qed
  from failed moved show ?thesis
    by blast
qed

theorem withdrawTo_atomic_witness:
  "snd (withdrawTo demo_env (demo_ctx 1000) 0x1234 100 2000
          (demo_signature 0x1234 0x1234 100 0 2000) (demo_state 50)) = demo_state 50 \<and>
   fst (withdrawTo demo_env (demo_ctx 1000) 0x1234 100 2000
          (demo_signature 0x1234 0x1234 100 0 2000) (demo_state 5000)) = Success \<and>
   demo_transfer 5000 0xABCD 0x1234 100 = Returned True 4900"
  using
    withdrawTo_atomic [of demo_env "demo_ctx 1000" "0x1234" 100 2000
      "demo_signature 0x1234 0x1234 100 0 2000" "demo_state 50"]
    withdrawTo_atomic [of demo_env "demo_ctx 1000" "0x1234" 100 2000
      "demo_signature 0x1234 0x1234 100 0 2000" "demo_state 5000"]
  by (simp add: demo_withdrawTo_ok demo_withdrawTo_underfunded demo_state_simps
      demo_nonce_after demo_transfer_def)

section \<open>Replay\<close>

text \<open>
  C2. After a successful call, the same recipient, amount, deadline and signature
  presented again to the same vault, still before the deadline, are rejected with the
  invalid-signer error and leave the state, the counters with it, as it was. This holds
  in the state the first call left and in every state the vault reaches from it,
  whatever calls are made in between: the tuple never succeeds a second time. The
  second call rebuilds the digest over the counter it finds, which is above the one
  the signature was made over. The hash and the recovery are parameters: the hash is
  taken not to collide on the two struct encodings and the two typed-data encodings,
  and the signature, which recovers the recipient over the first digest, to recover
  another address over the other digest.
\<close>

theorem withdrawTo_replay_fails:
  assumes first: "withdrawTo env ctx recipient amount deadline signature s = (Success, s1)"
    and afterwards: "vault_steps env s1 s2"
    and later: "block_timestamp ctx' \<le> deadline"
    and same_chain: "block_chainid ctx' = block_chainid ctx"
    and same_vault: "address_this ctx' = address_this ctx"
    and struct: "no_collision (keccak256 env)
        (struct_preimage (keccak256 env) recipient amount (nonces s recipient) deadline)
        (struct_preimage (keccak256 env) recipient amount (nonces s2 recipient) deadline)"
    and typed: "no_collision (keccak256 env)
        (typed_data_preimage (keccak256 env) (vault_domain ctx)
           (withdraw_structHash (keccak256 env) recipient amount (nonces s recipient) deadline))
        (typed_data_preimage (keccak256 env) (vault_domain ctx)
           (withdraw_structHash (keccak256 env) recipient amount (nonces s2 recipient) deadline))"
    and another: "recovers_another_signer (ECDSA_recover env) signature recipient
        (vault_digest env ctx s recipient amount deadline)
        (vault_digest env ctx' s2 recipient amount deadline)"
  shows "withdrawTo env ctx' recipient amount deadline signature s2
           = (Reverted Invalid_signer, s2) \<and>
         nonces (snd (withdrawTo env ctx' recipient amount deadline signature s2)) = nonces s2"
proof -
  have "withdrawTo env ctx' recipient amount deadline signature s2 = (Reverted Invalid_signer, s2)"
    using assms by (rule replay_rejected)
  then show ?thesis
    by simp
qed

theorem withdrawTo_replay_fails_witness:
  "withdrawTo demo_env (demo_ctx 1500) 0x1234 100 2000
       (demo_signature 0x1234 0x1234 100 0 2000) demo_state2
     = (Reverted Invalid_signer, demo_state2) \<and>
   nonces (snd (withdrawTo demo_env (demo_ctx 1500) 0x1234 100 2000
                  (demo_signature 0x1234 0x1234 100 0 2000) demo_state2)) 0x1234 = 1"
proof -
  have first: "withdrawTo demo_env (demo_ctx 1000) 0x1234 100 2000
       (demo_signature 0x1234 0x1234 100 0 2000) (demo_state 5000) = (Success, demo_state1)"
    by (simp add: demo_withdrawTo_ok demo_state1_def)
  have struct: "no_collision (keccak256 demo_env)
        (struct_preimage (keccak256 demo_env) 0x1234 100 (nonces (demo_state 5000) 0x1234) 2000)
        (struct_preimage (keccak256 demo_env) 0x1234 100 (nonces demo_state2 0x1234) 2000)"
    by (simp add: demo_env_simps demo_state_simps demo_state2_simps demo_no_collision
        demo_struct_preimage)
  have typed: "no_collision (keccak256 demo_env)
        (typed_data_preimage (keccak256 demo_env) (vault_domain (demo_ctx 1000))
           (withdraw_structHash (keccak256 demo_env) 0x1234 100
              (nonces (demo_state 5000) 0x1234) 2000))
        (typed_data_preimage (keccak256 demo_env) (vault_domain (demo_ctx 1000))
           (withdraw_structHash (keccak256 demo_env) 0x1234 100
              (nonces demo_state2 0x1234) 2000))"
    by (simp add: demo_env_simps demo_state_simps demo_state2_simps demo_no_collision
        demo_typed_data_preimage demo_structHash)
  have another: "recovers_another_signer (ECDSA_recover demo_env)
        (demo_signature 0x1234 0x1234 100 0 2000) 0x1234
        (vault_digest demo_env (demo_ctx 1000) (demo_state 5000) 0x1234 100 2000)
        (vault_digest demo_env (demo_ctx 1500) demo_state2 0x1234 100 2000)"
    by (simp add: recovers_another_signer_def demo_recover_replay2)
  show ?thesis
    using withdrawTo_replay_fails [OF first demo_vault_steps _ _ _ struct typed another]
    by (simp add: demo_ctx_simps demo_state2_simps)
qed

section \<open>Domain isolation\<close>

text \<open>
  C9. For every message and every two domain descriptors that differ in name, version,
  chain id or verifying contract, the two digests differ, and a signature that recovers
  a signer over the digest under the first domain does not recover that signer over the
  digest under the second. The hash is taken not to collide on the inputs it is given
  here (the two names, the two versions, the two domain encodings, the two typed-data
  encodings), and the signature not to recover the signer over two different digests.
\<close>

theorem domain_isolation:
  assumes differ: "name D1 \<noteq> name D2 \<or> version D1 \<noteq> version D2 \<or>
                   chainId D1 \<noteq> chainId D2 \<or> verifyingContract D1 \<noteq> verifyingContract D2"
    and names: "no_collision h (string_bytes (name D1)) (string_bytes (name D2))"
    and versions: "no_collision h (string_bytes (version D1)) (string_bytes (version D2))"
    and domains: "no_collision h (domain_preimage h D1) (domain_preimage h D2)"
    and typed: "no_collision h
        (typed_data_preimage h D1 (withdraw_structHash h recipient amount nonce deadline))
        (typed_data_preimage h D2 (withdraw_structHash h recipient amount nonce deadline))"
    and one_digest: "binds_one_digest recover signature signer
        (withdraw_digest h D1 recipient amount nonce deadline)
        (withdraw_digest h D2 recipient amount nonce deadline)"
  shows "withdraw_digest h D1 recipient amount nonce deadline
           \<noteq> withdraw_digest h D2 recipient amount nonce deadline \<and>
         (recover (withdraw_digest h D1 recipient amount nonce deadline) signature = Inr signer
            \<longrightarrow> recover (withdraw_digest h D2 recipient amount nonce deadline) signature
                  \<noteq> Inr signer)"
proof -
  have digests: "withdraw_digest h D1 recipient amount nonce deadline
      \<noteq> withdraw_digest h D2 recipient amount nonce deadline"
  proof
    assume "withdraw_digest h D1 recipient amount nonce deadline
      = withdraw_digest h D2 recipient amount nonce deadline"
    with typed have "typed_data_preimage h D1 (withdraw_structHash h recipient amount nonce deadline)
      = typed_data_preimage h D2 (withdraw_structHash h recipient amount nonce deadline)"
      by (simp add: no_collision_def withdraw_digest_preimages)
    then have "buildDomainSeparator h D1 = buildDomainSeparator h D2"
      by (simp add: typed_data_preimage_inject)
    with names versions domains
    have "name D1 = name D2 \<and> version D1 = version D2 \<and> chainId D1 = chainId D2 \<and>
         verifyingContract D1 = verifyingContract D2"
      by (rule buildDomainSeparator_inject)
    with differ show False
      by simp
  qed
  with one_digest show ?thesis
    by (auto simp: binds_one_digest_def)
qed

theorem domain_isolation_witness:
  "withdraw_digest demo_keccak256 (DOMAIN 1 0xABCD) 0x1234 100 0 2000
     \<noteq> withdraw_digest demo_keccak256 (DOMAIN 2 0xABCD) 0x1234 100 0 2000 \<and>
   demo_recover (withdraw_digest demo_keccak256 (DOMAIN 1 0xABCD) 0x1234 100 0 2000)
       (demo_signature 0x1234 0x1234 100 0 2000) = Inr 0x1234 \<and>
   demo_recover (withdraw_digest demo_keccak256 (DOMAIN 2 0xABCD) 0x1234 100 0 2000)
       (demo_signature 0x1234 0x1234 100 0 2000) \<noteq> Inr 0x1234"
proof -
  have differ: "name (DOMAIN 1 0xABCD) \<noteq> name (DOMAIN 2 0xABCD) \<or>
      version (DOMAIN 1 0xABCD) \<noteq> version (DOMAIN 2 0xABCD) \<or>
      chainId (DOMAIN 1 0xABCD) \<noteq> chainId (DOMAIN 2 0xABCD) \<or>
      verifyingContract (DOMAIN 1 0xABCD) \<noteq> verifyingContract (DOMAIN 2 0xABCD)"
    by (simp add: DOMAIN_def)
  have names: "no_collision demo_keccak256 (string_bytes (name (DOMAIN 1 0xABCD)))
      (string_bytes (name (DOMAIN 2 0xABCD)))"
    by (simp add: no_collision_def DOMAIN_def)
  have versions: "no_collision demo_keccak256 (string_bytes (version (DOMAIN 1 0xABCD)))
      (string_bytes (version (DOMAIN 2 0xABCD)))"
    by (simp add: no_collision_def DOMAIN_def)
  have domains: "no_collision demo_keccak256 (domain_preimage demo_keccak256 (DOMAIN 1 0xABCD))
      (domain_preimage demo_keccak256 (DOMAIN 2 0xABCD))"
    by (rule demo_no_collision) (simp add: demo_domain_preimage demo_domainSeparator_chain)
  have typed: "no_collision demo_keccak256
      (typed_data_preimage demo_keccak256 (DOMAIN 1 0xABCD)
         (withdraw_structHash demo_keccak256 0x1234 100 0 2000))
      (typed_data_preimage demo_keccak256 (DOMAIN 2 0xABCD)
         (withdraw_structHash demo_keccak256 0x1234 100 0 2000))"
    by (rule demo_no_collision)
      (simp add: demo_typed_data_preimage demo_domainSeparator_chain)
  have own: "demo_recover (withdraw_digest demo_keccak256 (DOMAIN 1 0xABCD) 0x1234 100 0 2000)
       (demo_signature 0x1234 0x1234 100 0 2000) = Inr 0x1234"
    by (simp add: demo_signature_def demo_recover_own_digest)
  have other: "demo_recover (withdraw_digest demo_keccak256 (DOMAIN 2 0xABCD) 0x1234 100 0 2000)
       (demo_signature 0x1234 0x1234 100 0 2000) = Inr 0x1235"
    by (simp add: demo_signature_def demo_recover_demo_sign demo_digest_chain)
  have one_digest: "binds_one_digest demo_recover (demo_signature 0x1234 0x1234 100 0 2000) 0x1234
      (withdraw_digest demo_keccak256 (DOMAIN 1 0xABCD) 0x1234 100 0 2000)
      (withdraw_digest demo_keccak256 (DOMAIN 2 0xABCD) 0x1234 100 0 2000)"
    by (simp add: binds_one_digest_def other)
  show ?thesis
    using domain_isolation [OF differ names versions domains typed one_digest] own
    by simp
qed

section \<open>The error reported\<close>




section \<open>Arithmetic of JavaScript numbers\<close>









section \<open>Backend and contract hash the same message\<close>

lemma encodeType_Withdraw:
  "map (\<lambda>(primary, flds). encodeType primary flds) TYPES = [WITHDRAW_TYPE]"
  by (simp add: TYPES_def encodeType_def WITHDRAW_TYPE_def)

lemma encodeType_domain: "encodeType ''EIP712Domain'' domain_fields = EIP712Domain_TYPE"
  by (simp add: domain_fields_def encodeType_def EIP712Domain_TYPE_def)

lemma encodeValue_number:
  "encodeValue h ''uint256'' (NumberV (Finite (uint w)))
     = (if uint w < 9007199254740991 then Some w else None)"
  for w :: uint256
  by (simp add: encodeValue_def)

lemma encodeValue_big: "encodeValue h ''uint256'' (BigV (uint w)) = Some w"
  for w :: uint256
proof -
  have "uint w < 2 ^ 256"
    using uint_lt2p [of w] by simp
  then show ?thesis
    by (simp add: encodeValue_def)
qed

lemma encodeValue_address: "encodeValue h ''address'' (AddressV a) = Some (abi_address a)"
  by (simp add: encodeValue_def)

lemma encodeValue_string: "encodeValue h ''string'' (StringV str) = Some (h (string_bytes str))"
  by (simp add: encodeValue_def)

lemma hashDomain_eq:
  "hashDomain h D
     = (if uint (chainId D) < 9007199254740991 then Some (buildDomainSeparator h D) else None)"
  by (simp add: hashDomain_def hashStruct_def encodeType_domain [simplified domain_fields_def]
      domain_fields_def domain_object_def encodeValue_number encodeValue_address
      encodeValue_string buildDomainSeparator_def)

lemma hashStruct_Withdraw:
  "hashStruct h ''Withdraw''
       [Field ''recipient'' ''address'', Field ''amount'' ''uint256'',
        Field ''nonce'' ''uint256'', Field ''deadline'' ''uint256'']
       (data_object \<lparr>data_recipient = r, data_amount = a,
                     data_nonce = uint n, data_deadline = Finite (uint d)\<rparr>)
     = (if uint n < 9007199254740991 \<and> uint d < 9007199254740991
        then Some (withdraw_structHash h r a n d) else None)"
  using encodeType_Withdraw
  by (simp add: hashStruct_def data_object_def encodeValue_number encodeValue_big
      encodeValue_address withdraw_structHash_def WITHDRAW_TYPEHASH_def TYPES_def)

lemma TypedDataEncoder_hash_Withdraw:
  "TypedDataEncoder_hash h D TYPES
       \<lparr>data_recipient = r, data_amount = a, data_nonce = uint n, data_deadline = Finite (uint d)\<rparr>
     = (if uint (chainId D) < 9007199254740991 \<and> uint n < 9007199254740991 \<and>
           uint d < 9007199254740991
        then Some (withdraw_digest h D r a n d) else None)"
  by (simp add: TypedDataEncoder_hash_def TYPES_def hashDomain_eq hashStruct_Withdraw
      withdraw_digest_def hashTypedDataV4_def toTypedDataHash_def)

text \<open>
  C5, as the code has it. The one struct type the backend declares in \<open>TYPES\<close> has
  exactly the type string the contract hashes in \<open>WITHDRAW_TYPEHASH\<close>; the name and
  version of the backend's \<open>DOMAIN\<close> are the contract's \<open>SIGNING_DOMAIN\<close> and
  \<open>SIGNATURE_VERSION\<close>. With the chain id and the contract address of the vault in
  \<open>DOMAIN\<close> and the same recipient, amount, nonce and deadline, the typed-data hash the
  backend and the signer compute is the digest the contract computes, as long as the
  chain id, the nonce and the deadline, which the backend holds as JavaScript numbers,
  are below \<open>2^53 - 1\<close>; when one of them is not, the encoder refuses it and the
  backend computes no digest.
\<close>

theorem backend_digest_is_contract_digest:
  "map (\<lambda>(primary, flds). encodeType primary flds) TYPES = [WITHDRAW_TYPE] \<and>
   name (DOMAIN cid vc) = SIGNING_DOMAIN \<and>
   version (DOMAIN cid vc) = SIGNATURE_VERSION \<and>
   DOMAIN (block_chainid ctx) (address_this ctx) = vault_domain ctx \<and>
   (uint (block_chainid ctx) < 9007199254740991 \<and>
    uint (nonces s recipient) < 9007199254740991 \<and>
    uint deadline < 9007199254740991 \<longrightarrow>
      TypedDataEncoder_hash (keccak256 env) (DOMAIN (block_chainid ctx) (address_this ctx)) TYPES
          \<lparr>data_recipient = recipient, data_amount = amount,
           data_nonce = uint (nonces s recipient), data_deadline = Finite (uint deadline)\<rparr>
        = Some (vault_digest env ctx s recipient amount deadline)) \<and>
   (9007199254740991 \<le> uint (block_chainid ctx) \<or>
    9007199254740991 \<le> uint (nonces s recipient) \<or>
    9007199254740991 \<le> uint deadline \<longrightarrow>
      TypedDataEncoder_hash (keccak256 env) (DOMAIN (block_chainid ctx) (address_this ctx)) TYPES
          \<lparr>data_recipient = recipient, data_amount = amount,
           data_nonce = uint (nonces s recipient), data_deadline = Finite (uint deadline)\<rparr>
        = None)"
proof -
  have dom: "DOMAIN (block_chainid ctx) (address_this ctx) = vault_domain ctx"
    by (simp add: DOMAIN_def vault_domain_def SIGNING_DOMAIN_def SIGNATURE_VERSION_def)
  have cid: "chainId (vault_domain ctx) = block_chainid ctx"
    by (simp add: vault_domain_def)
  have hash: "TypedDataEncoder_hash (keccak256 env) (vault_domain ctx) TYPES
       \<lparr>data_recipient = recipient, data_amount = amount,
        data_nonce = uint (nonces s recipient), data_deadline = Finite (uint deadline)\<rparr>
     = (if uint (block_chainid ctx) < 9007199254740991 \<and>
           uint (nonces s recipient) < 9007199254740991 \<and> uint deadline < 9007199254740991
        then Some (vault_digest env ctx s recipient amount deadline) else None)"
    by (simp add: TypedDataEncoder_hash_Withdraw cid vault_digest_def)
  have literals: "name (DOMAIN cid vc) = SIGNING_DOMAIN" "version (DOMAIN cid vc) = SIGNATURE_VERSION"
    by (simp_all add: DOMAIN_def SIGNING_DOMAIN_def SIGNATURE_VERSION_def)
  show ?thesis
    unfolding dom hash using encodeType_Withdraw literals dom by auto
qed

theorem backend_digest_is_contract_digest_witness:
  "TypedDataEncoder_hash demo_keccak256 (DOMAIN 1 0xABCD) TYPES
       \<lparr>data_recipient = 0x1234, data_amount = 100, data_nonce = 0, data_deadline = Finite 2000\<rparr>
     = Some (withdraw_digest demo_keccak256 (DOMAIN 1 0xABCD) 0x1234 100 0 2000) \<and>
   TypedDataEncoder_hash demo_keccak256 (DOMAIN 1 0xABCD) TYPES
       \<lparr>data_recipient = 0x1234, data_amount = 100, data_nonce = 0,
        data_deadline = Finite 9007199254740991\<rparr>
     = None"
  using backend_digest_is_contract_digest [of 1 "0xABCD" "demo_ctx 1000" "demo_state 5000"
      "0x1234" 2000 demo_env 100]
    backend_digest_is_contract_digest [of 1 "0xABCD" "demo_ctx 1000" "demo_state 5000"
      "0x1234" 9007199254740991 demo_env 100]
  by (simp add: demo_ctx_simps demo_env_simps demo_state_simps demo_vault_digest
      vault_domain_demo_ctx)

text \<open>
  The claim for all equal field values fails: at the counter value \<open>2^53 - 1\<close>, which
  \<open>getNonce\<close> still returns, the backend's encoder refuses the number, while the
  contract computes a digest over it.
\<close>

theorem backend_refuses_large_nonce:
  "getNonce ((demo_state 5000)\<lparr>nonces := \<lambda>_. 9007199254740991\<rparr>) 0x1234
     = Inr 9007199254740991 \<and>
   TypedDataEncoder_hash demo_keccak256 (DOMAIN 1 0xABCD) TYPES
       \<lparr>data_recipient = 0x1234, data_amount = 100, data_nonce = 9007199254740991,
        data_deadline = Finite 2000\<rparr>
     \<noteq> Some (vault_digest demo_env (demo_ctx 1000)
              ((demo_state 5000)\<lparr>nonces := \<lambda>_. 9007199254740991\<rparr>) 0x1234 100 2000)"
proof -
  have "TypedDataEncoder_hash demo_keccak256 (DOMAIN 1 0xABCD) TYPES
       \<lparr>data_recipient = 0x1234, data_amount = 100,
        data_nonce = uint (9007199254740991 :: uint256),
        data_deadline = Finite (uint (2000 :: uint256))\<rparr> = None"
    unfolding TypedDataEncoder_hash_Withdraw by simp
  then show ?thesis
    by (simp add: getNonce_def)
qed

section \<open>Issuing an authorization\<close>




end
